theory Spec2Isabelle
  imports Main "HOL-Library.Sublist" "HOL-Library.AList"
begin

section \<open>Go values used by the reconciler\<close>

text \<open>
  A Go \<open>error\<close> is identified with the text its \<open>Error()\<close> method returns; the nil error
  is \<open>None\<close> of \<open>error option\<close>.
\<close>

type_synonym error = string

text \<open>\<open>strings.Contains(s, sub)\<close>: \<open>sub\<close> occurs somewhere inside \<open>s\<close>.\<close>

fun Contains :: "string \<Rightarrow> string \<Rightarrow> bool" where
  "Contains [] sub = (sub = [])"
| "Contains (c # s) sub = (prefix sub (c # s) \<or> Contains s sub)"

text \<open>\<open>strings.Join(elems, sep)\<close>.\<close>

fun Join :: "string list \<Rightarrow> string \<Rightarrow> string" where
  "Join [] sep = []"
| "Join [x] sep = x"
| "Join (x # y # ys) sep = x @ sep @ Join (y # ys) sep"

text \<open>
  Modelled from the spec: the package \<open>operator/pkg/util\<close> with the type \<open>util.Errors\<close> is
  not among the sources. The spec calls it the accumulated (aggregated) list of non-fatal
  errors, where an empty list means full success: appending the nil error adds nothing,
  and \<open>ToError\<close> is nil exactly for the empty list.
\<close>

type_synonym Errors = "error list"

definition AppendErr :: "Errors \<Rightarrow> error option \<Rightarrow> Errors" where
  "AppendErr errors err = (case err of None \<Rightarrow> errors | Some e \<Rightarrow> errors @ [e])"

definition AppendErrs :: "Errors \<Rightarrow> Errors \<Rightarrow> Errors" where
  "AppendErrs errors newErrs = errors @ newErrs"

definition NewErrs :: "error \<Rightarrow> Errors" where
  "NewErrs err = [err]"

definition ToError :: "Errors \<Rightarrow> error option" where
  "ToError errs = (if errs = [] then None else Some (Join errs '', ''))"

subsection \<open>Labels and selectors\<close>

text \<open>
  A label set (\<open>map[string]string\<close>) is kept as an association list read with \<open>map_of\<close>.
  The selectors of \<open>k8s.io/apimachinery/pkg/labels\<close> that the reconciler builds are
  conjunctions of two kinds of requirement: a label equals a value
  (\<open>klabels.Set(labels).AsSelectorPreValidated()\<close>) and a label exists
  (\<open>klabels.NewRequirement(key, selection.Exists, nil)\<close>).
\<close>

type_synonym LabelSet = "(string \<times> string) list"

datatype Requirement = Equals string string | Exists string

type_synonym Selector = "Requirement list"

fun reqMatches :: "Requirement \<Rightarrow> LabelSet \<Rightarrow> bool" where
  "reqMatches (Equals k v) ls = (map_of ls k = Some v)"
| "reqMatches (Exists k) ls = (map_of ls k \<noteq> None)"

definition Matches :: "Selector \<Rightarrow> LabelSet \<Rightarrow> bool" where
  "Matches selector ls = list_all (\<lambda>r. reqMatches r ls) selector"

definition AsSelectorPreValidated :: "LabelSet \<Rightarrow> Selector" where
  "AsSelectorPreValidated labels = map (\<lambda>(k, v). Equals k v) labels"

definition Add :: "Selector \<Rightarrow> Requirement \<Rightarrow> Selector" where
  "Add selector r = selector @ [r]"

subsection \<open>Resource kinds and live objects\<close>

record GroupVersionKind =
  Group :: string
  Version :: string
  Kind :: string

text \<open>
  An \<open>unstructured.Unstructured\<close> as the pruning code reads it: its kind, namespace, name
  and labels.
\<close>

record Unstructured =
  objGVK :: GroupVersionKind
  objNamespace :: string
  objName :: string
  objLabels :: LabelSet

text \<open>
  Modelled from the spec: the kind-name constants of \<open>operator/pkg/name\<close> and the label
  key \<open>label.IstioRev\<close> are not among the sources. They are the Kubernetes and Istio kind
  names the spec's ordered kind lists speak of.
\<close>

definition HPAStr :: string where "HPAStr = ''HorizontalPodAutoscaler''"
definition PDBStr :: string where "PDBStr = ''PodDisruptionBudget''"
definition DeploymentStr :: string where "DeploymentStr = ''Deployment''"
definition DaemonSetStr :: string where "DaemonSetStr = ''DaemonSet''"
definition ServiceStr :: string where "ServiceStr = ''Service''"
definition CMStr :: string where "CMStr = ''ConfigMap''"
definition PVCStr :: string where "PVCStr = ''PersistentVolumeClaim''"
definition PodStr :: string where "PodStr = ''Pod''"
definition SecretStr :: string where "SecretStr = ''Secret''"
definition SAStr :: string where "SAStr = ''ServiceAccount''"
definition RoleBindingStr :: string where "RoleBindingStr = ''RoleBinding''"
definition RoleStr :: string where "RoleStr = ''Role''"
definition DestinationRuleStr :: string where "DestinationRuleStr = ''DestinationRule''"
definition EnvoyFilterStr :: string where "EnvoyFilterStr = ''EnvoyFilter''"
definition GatewayStr :: string where "GatewayStr = ''Gateway''"
definition VirtualServiceStr :: string where "VirtualServiceStr = ''VirtualService''"
definition PeerAuthenticationStr :: string where "PeerAuthenticationStr = ''PeerAuthentication''"
definition MutatingWebhookConfigurationStr :: string where
  "MutatingWebhookConfigurationStr = ''MutatingWebhookConfiguration''"
definition ValidatingWebhookConfigurationStr :: string where
  "ValidatingWebhookConfigurationStr = ''ValidatingWebhookConfiguration''"
definition ClusterRoleStr :: string where "ClusterRoleStr = ''ClusterRole''"
definition ClusterRoleBindingStr :: string where "ClusterRoleBindingStr = ''ClusterRoleBinding''"
definition CRDStr :: string where "CRDStr = ''CustomResourceDefinition''"
definition NetworkingAPIGroupName :: string where "NetworkingAPIGroupName = ''networking.istio.io''"
definition SecurityAPIGroupName :: string where "SecurityAPIGroupName = ''security.istio.io''"
definition PilotComponentName :: string where "PilotComponentName = ''Pilot''"
definition IstioRev :: string where "IstioRev = ''istio.io/rev''"

definition istioDefaultNamespace :: string where
  "istioDefaultNamespace = ''istio-system''"

definition GVK :: "string \<Rightarrow> string \<Rightarrow> string \<Rightarrow> GroupVersionKind" where
  "GVK g v k = \<lparr>Group = g, Version = v, Kind = k\<rparr>"

text \<open>\<open>NamespacedResources\<close>: the namespace-scoped kinds, in deletion order.\<close>

definition NamespacedResources :: "GroupVersionKind list" where
  "NamespacedResources =
    [GVK ''autoscaling'' ''v2beta1'' HPAStr,
     GVK ''policy'' ''v1beta1'' PDBStr,
     GVK ''apps'' ''v1'' DeploymentStr,
     GVK ''apps'' ''v1'' DaemonSetStr,
     GVK [] ''v1'' ServiceStr,
     GVK [] ''v1'' CMStr,
     GVK [] ''v1'' PVCStr,
     GVK [] ''v1'' PodStr,
     GVK [] ''v1'' SecretStr,
     GVK [] ''v1'' SAStr,
     GVK ''rbac.authorization.k8s.io'' ''v1'' RoleBindingStr,
     GVK ''rbac.authorization.k8s.io'' ''v1'' RoleStr,
     GVK NetworkingAPIGroupName ''v1alpha3'' DestinationRuleStr,
     GVK NetworkingAPIGroupName ''v1alpha3'' EnvoyFilterStr,
     GVK NetworkingAPIGroupName ''v1alpha3'' GatewayStr,
     GVK NetworkingAPIGroupName ''v1alpha3'' VirtualServiceStr,
     GVK SecurityAPIGroupName ''v1beta1'' PeerAuthenticationStr]"

text \<open>\<open>ClusterResources\<close>: the cluster-scoped kinds the operator prunes; the CRD entry is
  commented out in the source.\<close>

definition ClusterResources :: "GroupVersionKind list" where
  "ClusterResources =
    [GVK ''admissionregistration.k8s.io'' ''v1beta1'' MutatingWebhookConfigurationStr,
     GVK ''admissionregistration.k8s.io'' ''v1beta1'' ValidatingWebhookConfigurationStr,
     GVK ''rbac.authorization.k8s.io'' ''v1'' ClusterRoleStr,
     GVK ''rbac.authorization.k8s.io'' ''v1'' ClusterRoleBindingStr]"

definition NonNamespacedCPResources :: "GroupVersionKind list" where
  "NonNamespacedCPResources =
    [GVK ''admissionregistration.k8s.io'' ''v1beta1'' MutatingWebhookConfigurationStr]"

definition CRDKind :: GroupVersionKind where
  "CRDKind = GVK ''apiextensions.k8s.io'' ''v1beta1'' CRDStr"

definition AllClusterResources :: "GroupVersionKind list" where
  "AllClusterResources = NonNamespacedCPResources @ [CRDKind]"

section \<open>The object cache\<close>

text \<open>
  Modelled from the spec: the package \<open>operator/pkg/cache\<close> is not among the sources. The
  spec (Object Cache) has it as process-wide state keyed by the owning custom resource's
  hash, whose value is the set of object hashes it owns; \<open>Remove(ownerKey, objHash)\<close> is
  idempotent and a no-op on an absent entry, \<open>FlushAll()\<close> clears every owner's cache.
\<close>

type_synonym ObjectCaches = "string \<rightharpoonup> string set"

definition RemoveObject :: "string \<Rightarrow> string \<Rightarrow> ObjectCaches \<Rightarrow> ObjectCaches" where
  "RemoveObject ownerKey objHash caches =
     (case caches ownerKey of
        None \<Rightarrow> caches
      | Some hs \<Rightarrow> caches(ownerKey \<mapsto> hs - {objHash}))"

definition FlushObjectCaches :: "ObjectCaches \<Rightarrow> ObjectCaches" where
  "FlushObjectCaches caches = Map.empty"

definition inCache :: "ObjectCaches \<Rightarrow> string \<Rightarrow> string \<Rightarrow> bool" where
  "inCache caches ownerKey objHash =
     (case caches ownerKey of None \<Rightarrow> False | Some hs \<Rightarrow> objHash \<in> hs)"

section \<open>The reconciler and the world it acts on\<close>

text \<open>
  What a call can observe or change: the cluster behind the client (of any type \<open>'c\<close>),
  the process-wide object cache, and the log. The calls made are recorded as traces:
  every \<open>client.Delete\<close> with its result, every \<open>client.List\<close> with its kind and selector,
  every call into the cache package.
\<close>

datatype LogEntry =
    LogNotPruning string
  | LogNotBeingDeleted string error
  | LogRemoved string
  | LogRemovedFromCache string
  | LogError error
  | LogWarnRetrieving GroupVersionKind error

datatype CacheOp = OpRemoveObject string string | OpFlushObjectCaches

record 'c World =
  cluster :: 'c
  objectCaches :: ObjectCaches
  cacheOps :: "CacheOp list"
  logLines :: "LogEntry list"
  deleteCalls :: "(Unstructured \<times> error option) list"
  listCalls :: "(GroupVersionKind \<times> Selector) list"

text \<open>
  A \<open>HelmReconciler\<close>: its client (\<open>List\<close> and \<open>Delete\<close> against the cluster), the dry-run
  option, and the methods and collaborators that are declared outside the sources and
  therefore taken as parameters: \<open>getCoreOwnerLabels\<close>, \<open>addComponentLabels\<close>, \<open>getCRHash\<close>,
  the hash \<open>object.NewK8sObject(&o, nil, nil).Hash()\<close>, the result of the constant call
  \<open>klabels.NewRequirement(IstioComponentLabelStr, selection.Exists, nil)\<close>, and
  \<open>proxy.GetIDsFromProxyInfo\<close>.
\<close>

record 'c HelmReconciler =
  clientList :: "'c \<Rightarrow> GroupVersionKind \<Rightarrow> Selector \<Rightarrow> error + Unstructured list"
  clientDelete :: "'c \<Rightarrow> Unstructured \<Rightarrow> error option \<times> 'c"
  optsDryRun :: bool
  getCoreOwnerLabels :: "error + LabelSet"
  addComponentLabels :: "LabelSet \<Rightarrow> string \<Rightarrow> LabelSet"
  getCRHash :: "string \<Rightarrow> string \<times> error option"
  objHash :: "Unstructured \<Rightarrow> string"
  componentRequirement :: "error + Requirement"
  GetIDsFromProxyInfo :: "string \<Rightarrow> string \<Rightarrow> string \<Rightarrow> string \<Rightarrow> string list \<times> error option"

text \<open>The exclusion map \<open>excluded map[string]bool\<close>; a missing key (and the nil map) reads
  as false.\<close>

type_synonym Excluded = "string \<rightharpoonup> bool"

definition isExcluded :: "Excluded \<Rightarrow> string \<Rightarrow> bool" where
  "isExcluded excluded oh = (case excluded oh of None \<Rightarrow> False | Some b \<Rightarrow> b)"

text \<open>\<open>removeFromObjectCache\<close>: an error of \<open>getCRHash\<close> is logged and the removal is
  made all the same, under the key that was returned.\<close>

definition removeFromObjectCache ::
    "'c HelmReconciler \<Rightarrow> string \<Rightarrow> string \<Rightarrow> 'c World \<Rightarrow> 'c World" where
  "removeFromObjectCache h componentName oh w =
     (let crHash = fst (getCRHash h componentName);
          w1 = (case snd (getCRHash h componentName) of
                  None \<Rightarrow> w
                | Some e \<Rightarrow> w\<lparr>logLines := logLines w @ [LogError e]\<rparr>)
      in w1\<lparr>objectCaches := RemoveObject crHash oh (objectCaches w1),
            cacheOps := cacheOps w1 @ [OpRemoveObject crHash oh],
            logLines := logLines w1 @ [LogRemovedFromCache oh]\<rparr>)"

text \<open>One iteration of the loop of \<open>deleteResources\<close> over \<open>objects.Items\<close>.\<close>

definition deleteItem ::
    "'c HelmReconciler \<Rightarrow> Excluded \<Rightarrow> Selector \<Rightarrow> string \<Rightarrow> bool \<Rightarrow> Unstructured \<Rightarrow>
     Errors \<times> 'c World \<Rightarrow> Errors \<times> 'c World" where
  "deleteItem h excluded selector componentName all obj s =
     (let errs = fst s; w = snd s; oh = objHash h obj in
      if \<not> all \<and> \<not> Matches selector (objLabels obj) then s
      else if \<not> all \<and> isExcluded excluded oh then s
      else if optsDryRun h then (errs, w\<lparr>logLines := logLines w @ [LogNotPruning oh]\<rparr>)
      else
        let err = fst (clientDelete h (cluster w) obj);
            w1 = w\<lparr>cluster := snd (clientDelete h (cluster w) obj),
                   deleteCalls := deleteCalls w @ [(obj, err)]\<rparr>;
            errs1 = (case err of
                       None \<Rightarrow> errs
                     | Some e \<Rightarrow> if \<not> Contains e ''not found''
                                 then AppendErr errs (Some e) else errs);
            w2 = (case err of
                    None \<Rightarrow> w1
                  | Some e \<Rightarrow> if \<not> Contains e ''not found'' then w1
                              else w1\<lparr>logLines := logLines w1 @ [LogNotBeingDeleted oh e]\<rparr>);
            w3 = (if \<not> all then removeFromObjectCache h componentName oh w2 else w2)
        in (errs1, w3\<lparr>logLines := logLines w3 @ [LogRemoved oh]\<rparr>))"

primrec deleteItems ::
    "'c HelmReconciler \<Rightarrow> Excluded \<Rightarrow> Selector \<Rightarrow> string \<Rightarrow> bool \<Rightarrow> Unstructured list \<Rightarrow>
     Errors \<times> 'c World \<Rightarrow> Errors \<times> 'c World" where
  "deleteItems h excluded selector componentName all [] s = s"
| "deleteItems h excluded selector componentName all (obj # objs) s =
     deleteItems h excluded selector componentName all objs
       (deleteItem h excluded selector componentName all obj s)"

text \<open>
  \<open>deleteResources\<close>, in two layers: \<open>deleteResourcesErrs\<close> is the body up to the
  accumulated \<open>errs\<close>, \<open>deleteResources\<close> returns \<open>errs.ToError()\<close>.
\<close>

definition deleteResourcesErrs ::
    "'c HelmReconciler \<Rightarrow> Excluded \<Rightarrow> LabelSet \<Rightarrow> string \<Rightarrow> Unstructured list \<Rightarrow> bool \<Rightarrow>
     'c World \<Rightarrow> Errors \<times> 'c World" where
  "deleteResourcesErrs h excluded coreLabels componentName objects all w =
     (let labels = addComponentLabels h coreLabels componentName;
          selector = AsSelectorPreValidated labels;
          s = deleteItems h excluded selector componentName all objects ([], w);
          w1 = snd s;
          w2 = (if all
                then w1\<lparr>objectCaches := FlushObjectCaches (objectCaches w1),
                        cacheOps := cacheOps w1 @ [OpFlushObjectCaches]\<rparr>
                else w1)
      in (fst s, w2))"

definition deleteResources ::
    "'c HelmReconciler \<Rightarrow> Excluded \<Rightarrow> LabelSet \<Rightarrow> string \<Rightarrow> Unstructured list \<Rightarrow> bool \<Rightarrow>
     'c World \<Rightarrow> error option \<times> 'c World" where
  "deleteResources h excluded coreLabels componentName objects all w =
     (let r = deleteResourcesErrs h excluded coreLabels componentName objects all w
      in (ToError (fst r), snd r))"


subsection \<open>Running a callback for every kind\<close>

text \<open>
  \<open>runForAllTypes\<close>: the loop over \<open>append(NamespacedResources, ClusterResources...)\<close>. The
  loop state is the accumulated \<open>errs\<close>, the selector (which gains the component
  requirement at every iteration) and the world. A failing \<open>List\<close> is logged and the kind
  skipped; a failing \<open>NewRequirement\<close> returns at once.
\<close>

type_synonym 'c Callback =
  "LabelSet \<Rightarrow> Unstructured list \<Rightarrow> 'c World \<Rightarrow> error option \<times> 'c World"

primrec runForTypes ::
    "'c HelmReconciler \<Rightarrow> 'c Callback \<Rightarrow> LabelSet \<Rightarrow> GroupVersionKind list \<Rightarrow>
     Errors \<times> Selector \<times> 'c World \<Rightarrow> error option \<times> 'c World" where
  "runForTypes h callback labels [] s = (ToError (fst s), snd (snd s))"
| "runForTypes h callback labels (gvk # gvks) s =
     (let errs = fst s; selector = fst (snd s); w = snd (snd s) in
      case componentRequirement h of
        Inl err \<Rightarrow> (Some err, w)
      | Inr req \<Rightarrow>
          let selector' = Add selector req;
              w1 = w\<lparr>listCalls := listCalls w @ [(gvk, selector')]\<rparr>
          in (case clientList h (cluster w) gvk selector' of
                Inl err \<Rightarrow>
                  runForTypes h callback labels gvks
                    (errs, selector', w1\<lparr>logLines := logLines w1 @ [LogWarnRetrieving gvk err]\<rparr>)
              | Inr objects \<Rightarrow>
                  runForTypes h callback labels gvks
                    (AppendErr errs (fst (callback labels objects w1)), selector',
                     snd (callback labels objects w1))))"

definition runForAllTypes ::
    "'c HelmReconciler \<Rightarrow> 'c Callback \<Rightarrow> 'c World \<Rightarrow> error option \<times> 'c World" where
  "runForAllTypes h callback w =
     (case getCoreOwnerLabels h of
        Inl err \<Rightarrow> (Some err, w)
      | Inr labels \<Rightarrow>
          runForTypes h callback labels (NamespacedResources @ ClusterResources)
            ([], AsSelectorPreValidated labels, w))"

text \<open>
  \<open>Prune\<close>. The manifest map enters as the list of pairs
  \<open>(cname, object.AllObjectHashes(manifest))\<close> in the order in which the range over
  \<open>manifests.Consolidated()\<close> visits them; both functions are outside the sources. The
  nil exclusion map is the empty map.
\<close>

primrec pruneComponents ::
    "'c HelmReconciler \<Rightarrow> LabelSet \<Rightarrow> Unstructured list \<Rightarrow> bool \<Rightarrow> (string \<times> Excluded) list \<Rightarrow>
     Errors \<times> 'c World \<Rightarrow> Errors \<times> 'c World" where
  "pruneComponents h labels objects all [] s = s"
| "pruneComponents h labels objects all (m # ms) s =
     pruneComponents h labels objects all ms
       (AppendErr (fst s) (fst (deleteResources h (snd m) labels (fst m) objects all (snd s))),
        snd (deleteResources h (snd m) labels (fst m) objects all (snd s)))"

definition pruneCallback ::
    "'c HelmReconciler \<Rightarrow> (string \<times> Excluded) list \<Rightarrow> bool \<Rightarrow> 'c Callback" where
  "pruneCallback h manifests all labels objects w =
     (if all
      then (ToError (AppendErr [] (fst (deleteResources h Map.empty labels [] objects all w))),
            snd (deleteResources h Map.empty labels [] objects all w))
      else (ToError (fst (pruneComponents h labels objects all manifests ([], w))),
            snd (pruneComponents h labels objects all manifests ([], w))))"

definition Prune ::
    "'c HelmReconciler \<Rightarrow> (string \<times> Excluded) list \<Rightarrow> bool \<Rightarrow> 'c World \<Rightarrow>
     error option \<times> 'c World" where
  "Prune h manifests all w = runForAllTypes h (pruneCallback h manifests all) w"


subsection \<open>Pruning a control-plane revision\<close>

text \<open>\<open>GetPrunedResourcesByRevision\<close>: returns the lists found per kind, the hashes of
  their objects, and the error.\<close>

primrec getPrunedLoop ::
    "'c HelmReconciler \<Rightarrow> GroupVersionKind list \<Rightarrow>
     Unstructured list list \<times> string list \<times> Selector \<times> 'c World \<Rightarrow>
     Unstructured list list \<times> string list \<times> error option \<times> 'c World" where
  "getPrunedLoop h [] s = (fst s, fst (snd s), None, snd (snd (snd s)))"
| "getPrunedLoop h (gvk # gvks) s =
     (let usList = fst s; resources = fst (snd s); selector = fst (snd (snd s));
          w = snd (snd (snd s)) in
      case componentRequirement h of
        Inl err \<Rightarrow> (usList, resources, Some err, w)
      | Inr req \<Rightarrow>
          let selector' = Add selector req;
              w1 = w\<lparr>listCalls := listCalls w @ [(gvk, selector')]\<rparr>
          in (case clientList h (cluster w) gvk selector' of
                Inl err \<Rightarrow>
                  getPrunedLoop h gvks
                    (usList, resources, selector',
                     w1\<lparr>logLines := logLines w1 @ [LogWarnRetrieving gvk err]\<rparr>)
              | Inr objects \<Rightarrow>
                  getPrunedLoop h gvks
                    (usList @ [objects], resources @ map (objHash h) objects, selector', w1)))"

definition GetPrunedResourcesByRevision ::
    "'c HelmReconciler \<Rightarrow> string \<Rightarrow> bool \<Rightarrow> 'c World \<Rightarrow>
     Unstructured list list \<times> string list \<times> error option \<times> 'c World" where
  "GetPrunedResourcesByRevision h revision purge w =
     (let labels = [(IstioRev, revision)];
          selector = AsSelectorPreValidated labels;
          gvkList = (if \<not> purge then NamespacedResources @ NonNamespacedCPResources
                     else AllClusterResources)
      in getPrunedLoop h gvkList ([], [], selector, w))"

text \<open>\<open>DeleteControlPlaneByRevision\<close>: stops at the first list whose deletion reports an
  error.\<close>

primrec deleteByRevisionLoop ::
    "'c HelmReconciler \<Rightarrow> LabelSet \<Rightarrow> bool \<Rightarrow> Unstructured list list \<Rightarrow> 'c World \<Rightarrow>
     error option \<times> 'c World" where
  "deleteByRevisionLoop h labels purge [] w = (None, w)"
| "deleteByRevisionLoop h labels purge (objects # rest) w =
     (let r = (if \<not> purge
               then deleteResources h Map.empty labels PilotComponentName objects False w
               else deleteResources h Map.empty labels [] objects True w)
      in case fst r of
           Some err \<Rightarrow> (Some (''failed to prune resources: '' @ err), snd r)
         | None \<Rightarrow> deleteByRevisionLoop h labels purge rest (snd r))"

definition DeleteControlPlaneByRevision ::
    "'c HelmReconciler \<Rightarrow> string \<Rightarrow> Unstructured list list \<Rightarrow> bool \<Rightarrow> 'c World \<Rightarrow>
     error option \<times> 'c World" where
  "DeleteControlPlaneByRevision h revision objectsList purge w =
     (let labels = (if \<not> purge then [(IstioRev, revision)] else [])
      in deleteByRevisionLoop h labels purge objectsList w)"

datatype InstallStatus = InstallStatus_ERROR | InstallStatus_HEALTHY

definition PruneControlPlaneByRevisionWithController ::
    "'c HelmReconciler \<Rightarrow> string \<Rightarrow> string \<Rightarrow> 'c World \<Rightarrow>
     InstallStatus \<times> error option \<times> 'c World" where
  "PruneControlPlaneByRevisionWithController h ns revision w =
     (let ns' = (if ns = [] then istioDefaultNamespace else ns);
          pids = fst (GetIDsFromProxyInfo h [] [] revision ns');
          err = snd (GetIDsFromProxyInfo h [] [] revision ns')
      in case err of
           Some e \<Rightarrow> (InstallStatus_ERROR, Some (''failed to check proxy infos: '' @ e), w)
         | None \<Rightarrow>
             if length pids \<noteq> 0
             then (InstallStatus_ERROR,
                   Some (''there are proxies still pointing to the pruned control plane: ''
                         @ Join pids '' ''), w)
             else
               (let g = GetPrunedResourcesByRevision h revision False w;
                    uslist = fst g; gerr = fst (snd (snd g)); wg = snd (snd (snd g))
                in case gerr of
                     Some e \<Rightarrow> (InstallStatus_ERROR, Some e, wg)
                   | None \<Rightarrow>
                       (let d = DeleteControlPlaneByRevision h revision uslist False wg
                        in case fst d of
                             Some e \<Rightarrow> (InstallStatus_ERROR, Some e, snd d)
                           | None \<Rightarrow> (InstallStatus_HEALTHY, None, snd d))))"


section \<open>The version-gated hook dispatcher\<close>

text \<open>
  The dispatcher uses \<open>github.com/hashicorp/go-version\<close> through three functions. They
  are a parameter of the model: parsing a version, parsing a constraint, checking a
  version against a constraint.
\<close>

record ('v, 'cn) VersionLib =
  NewVersion :: "string \<Rightarrow> error + 'v"
  NewConstraint :: "string \<Rightarrow> error + 'cn"
  Check :: "'cn \<Rightarrow> 'v \<Rightarrow> bool"

record ('kobj, 'iops) HookCommonParams =
  SourceVer :: string
  TargetVer :: string
  DefaultTelemetryManifest :: "string \<rightharpoonup> 'kobj"
  SourceIOPS :: 'iops
  TargetIOPS :: 'iops

datatype HookLog =
    LogSourceNotSatisfied string string
  | LogTargetNotSatisfied string string
  | LogRunningHooks string string "string list"
  | LogSkippingDryRun
  | LogRunningHook string
  | LogWarnNotInCluster string string

text \<open>
  A hook is a function value that may check or change the cluster; it carries the name
  that its \<open>String()\<close> method reports. The dispatcher's world is the state the hooks act on
  (of any type \<open>'st\<close>), the trace of the hooks that were called, and the log.
\<close>

record ('k, 'p, 'st) hook =
  hookName :: string
  hookRun :: "'k \<Rightarrow> 'p \<Rightarrow> 'st \<Rightarrow> Errors \<times> 'st"

record ('k, 'p, 'st) hookVersionMapping =
  sourceVersionConstraint :: string
  targetVersionConstraint :: string
  hooks :: "('k, 'p, 'st) hook list"

record 'st HookWorld =
  hookState :: 'st
  hooksInvoked :: "string list"
  hookLog :: "HookLog list"

definition checkConstraint ::
    "('v, 'cn) VersionLib \<Rightarrow> string \<Rightarrow> string \<Rightarrow> bool \<times> error option" where
  "checkConstraint lib verStr constraintStr =
     (case NewVersion lib verStr of
        Inl err \<Rightarrow> (False, Some err)
      | Inr ver \<Rightarrow>
          (case NewConstraint lib constraintStr of
             Inl err \<Rightarrow> (False, Some err)
           | Inr constraint \<Rightarrow> (Check lib constraint ver, None)))"

text \<open>\<open>checkHookListEntry\<close>: the result pair and the lines it logs.\<close>

definition checkHookListEntry ::
    "('v, 'cn) VersionLib \<Rightarrow> ('k, ('kobj, 'iops) HookCommonParams, 'st) hookVersionMapping \<Rightarrow>
     ('kobj, 'iops) HookCommonParams \<Rightarrow> (bool \<times> error option) \<times> HookLog list" where
  "checkHookListEntry lib h hc =
     (let r = checkConstraint lib (SourceVer hc) (sourceVersionConstraint h) in
      case snd r of
        Some err \<Rightarrow> ((False, Some err), [])
      | None \<Rightarrow>
          if \<not> fst r
          then ((False, None), [LogSourceNotSatisfied (SourceVer hc) (sourceVersionConstraint h)])
          else
            (let r2 = checkConstraint lib (TargetVer hc) (targetVersionConstraint h) in
             case snd r2 of
               Some err \<Rightarrow> ((False, Some err), [])
             | None \<Rightarrow>
                 if \<not> fst r2
                 then ((False, None),
                       [LogTargetNotSatisfied (TargetVer hc) (targetVersionConstraint h)])
                 else ((True, None), [])))"

text \<open>The inner loop of \<open>runUpgradeHooks\<close> over \<open>h.hooks\<close>.\<close>

primrec runHookList ::
    "'k \<Rightarrow> 'p \<Rightarrow> ('k, 'p, 'st) hook list \<Rightarrow> Errors \<times> 'st HookWorld \<Rightarrow> Errors \<times> 'st HookWorld" where
  "runHookList kubeClient hc [] s = s"
| "runHookList kubeClient hc (hf # hfs) s =
     runHookList kubeClient hc hfs
       (let errs = fst s; w = snd s; r = hookRun hf kubeClient hc (hookState w) in
        (AppendErrs errs (fst r),
         w\<lparr>hookState := snd r,
           hooksInvoked := hooksInvoked w @ [hookName hf],
           hookLog := hookLog w @ [LogRunningHook (hookName hf)]\<rparr>))"

text \<open>One iteration of the outer loop over the mappings.\<close>

definition runMapping ::
    "('v, 'cn) VersionLib \<Rightarrow> 'k \<Rightarrow> ('kobj, 'iops) HookCommonParams \<Rightarrow> bool \<Rightarrow>
     ('k, ('kobj, 'iops) HookCommonParams, 'st) hookVersionMapping \<Rightarrow>
     Errors \<times> 'st HookWorld \<Rightarrow> Errors \<times> 'st HookWorld" where
  "runMapping lib kubeClient hc dryRun h s =
     (let errs = fst s;
          c = checkHookListEntry lib h hc;
          w = (snd s)\<lparr>hookLog := hookLog (snd s) @ snd c\<rparr> in
      case snd (fst c) of
        Some err \<Rightarrow> (AppendErr errs (Some err), w)
      | None \<Rightarrow>
          if \<not> fst (fst c) then (errs, w)
          else
            (let w1 = w\<lparr>hookLog := hookLog w @
                        [LogRunningHooks (SourceVer hc) (TargetVer hc) (map hookName (hooks h))]\<rparr>
             in if dryRun then (errs, w1\<lparr>hookLog := hookLog w1 @ [LogSkippingDryRun]\<rparr>)
                else runHookList kubeClient hc (hooks h) (errs, w1)))"

primrec runMappings ::
    "('v, 'cn) VersionLib \<Rightarrow> 'k \<Rightarrow> ('kobj, 'iops) HookCommonParams \<Rightarrow> bool \<Rightarrow>
     ('k, ('kobj, 'iops) HookCommonParams, 'st) hookVersionMapping list \<Rightarrow>
     Errors \<times> 'st HookWorld \<Rightarrow> Errors \<times> 'st HookWorld" where
  "runMappings lib kubeClient hc dryRun [] s = s"
| "runMappings lib kubeClient hc dryRun (h # hml) s =
     runMappings lib kubeClient hc dryRun hml (runMapping lib kubeClient hc dryRun h s)"

definition runUpgradeHooks ::
    "('v, 'cn) VersionLib \<Rightarrow>
     ('k, ('kobj, 'iops) HookCommonParams, 'st) hookVersionMapping list \<Rightarrow> 'k \<Rightarrow>
     ('kobj, 'iops) HookCommonParams \<Rightarrow> bool \<Rightarrow> 'st HookWorld \<Rightarrow> Errors \<times> 'st HookWorld" where
  "runUpgradeHooks lib hml kubeClient hc dryRun w =
     (case NewVersion lib (SourceVer hc) of
        Inl err \<Rightarrow> (NewErrs err, w)
      | Inr _ \<Rightarrow>
          (case NewVersion lib (TargetVer hc) of
             Inl err \<Rightarrow> (NewErrs err, w)
           | Inr _ \<Rightarrow> runMappings lib kubeClient hc dryRun hml ([], w)))"

subsection \<open>A fragment of go-version\<close>

text \<open>
  The part of \<open>hashicorp/go-version\<close> needed to run the dispatcher on plain versions:
  a version is an optional \<open>v\<close> and dot-separated decimal segments, padded with zeros to
  three segments; a constraint is a comma-separated list of an operator among
  \<open>=\<close>, \<open>!=\<close>, \<open>>\<close>, \<open><\<close>, \<open>>=\<close>, \<open><=\<close> (or none, meaning \<open>=\<close>) and a version. Pre-release and
  metadata suffixes and the operator \<open>~>\<close> are outside the fragment and are reported as
  errors here.
\<close>

fun indexOf :: "'a \<Rightarrow> 'a list \<Rightarrow> nat option" where
  "indexOf x [] = None"
| "indexOf x (y # ys) = (if x = y then Some 0 else map_option Suc (indexOf x ys))"

definition digitOf :: "char \<Rightarrow> nat option" where
  "digitOf c = indexOf c ''0123456789''"

fun parseDigits :: "string \<Rightarrow> nat \<Rightarrow> nat option" where
  "parseDigits [] acc = Some acc"
| "parseDigits (c # cs) acc =
     (case digitOf c of None \<Rightarrow> None | Some d \<Rightarrow> parseDigits cs (10 * acc + d))"

definition parseSegment :: "string \<Rightarrow> nat option" where
  "parseSegment s =
     (if s = [] then None
      else case parseDigits s 0 of
             None \<Rightarrow> None
           | Some n \<Rightarrow> if n < 2 ^ 63 then Some n else None)"

fun splitOn :: "char \<Rightarrow> string \<Rightarrow> string list" where
  "splitOn sep [] = [[]]"
| "splitOn sep (c # cs) =
     (if c = sep then [] # splitOn sep cs
      else (case splitOn sep cs of [] \<Rightarrow> [[c]] | x # xs \<Rightarrow> (c # x) # xs))"

fun allSome :: "'a option list \<Rightarrow> 'a list option" where
  "allSome [] = Some []"
| "allSome (x # xs) =
     (case x of None \<Rightarrow> None
      | Some y \<Rightarrow> (case allSome xs of None \<Rightarrow> None | Some ys \<Rightarrow> Some (y # ys)))"

definition padSegments :: "nat list \<Rightarrow> nat list" where
  "padSegments segs = segs @ replicate (3 - length segs) 0"

definition gvNewVersion :: "string \<Rightarrow> error + nat list" where
  "gvNewVersion v =
     (let body = (case v of c # r \<Rightarrow> if c = CHR ''v'' then r else v | [] \<Rightarrow> v) in
      case allSome (map parseSegment (splitOn CHR ''.'' body)) of
        None \<Rightarrow> Inl (''Malformed version: '' @ v)
      | Some segs \<Rightarrow> Inr (padSegments segs))"

fun compareSegments :: "nat list \<Rightarrow> nat list \<Rightarrow> int" where
  "compareSegments [] [] = 0"
| "compareSegments [] (y # ys) = (if y = 0 then compareSegments [] ys else - 1)"
| "compareSegments (x # xs) [] = (if x = 0 then compareSegments xs [] else 1)"
| "compareSegments (x # xs) (y # ys) =
     (if x < y then - 1 else if y < x then 1 else compareSegments xs ys)"

datatype ConstraintOp = CEq | CNe | CGt | CLt | CGe | CLe

fun constraintHolds :: "ConstraintOp \<Rightarrow> int \<Rightarrow> bool" where
  "constraintHolds CEq c = (c = 0)"
| "constraintHolds CNe c = (c \<noteq> 0)"
| "constraintHolds CGt c = (c > 0)"
| "constraintHolds CLt c = (c < 0)"
| "constraintHolds CGe c = (c \<ge> 0)"
| "constraintHolds CLe c = (c \<le> 0)"

definition trimSpace :: "string \<Rightarrow> string" where
  "trimSpace s = rev (dropWhile (\<lambda>c. c = CHR '' '') (rev (dropWhile (\<lambda>c. c = CHR '' '') s)))"

definition parseSingle :: "string \<Rightarrow> error + (ConstraintOp \<times> nat list)" where
  "parseSingle s =
     (let t = trimSpace s;
          opRest =
            (if prefix ''<='' t then Some (CLe, drop 2 t)
             else if prefix ''>='' t then Some (CGe, drop 2 t)
             else if prefix ''!='' t then Some (CNe, drop 2 t)
             else if prefix ''~>'' t then None
             else if prefix ''<'' t then Some (CLt, drop 1 t)
             else if prefix ''>'' t then Some (CGt, drop 1 t)
             else if prefix ''='' t then Some (CEq, drop 1 t)
             else Some (CEq, t))
      in case opRest of
           None \<Rightarrow> Inl (''Malformed constraint: '' @ s)
         | Some p \<Rightarrow>
             (case gvNewVersion (trimSpace (snd p)) of
                Inl err \<Rightarrow> Inl (''Malformed constraint: '' @ s)
              | Inr ver \<Rightarrow> Inr (fst p, ver)))"

fun allRight :: "('e + 'a) list \<Rightarrow> 'e + 'a list" where
  "allRight [] = Inr []"
| "allRight (x # xs) =
     (case x of Inl e \<Rightarrow> Inl e
      | Inr y \<Rightarrow> (case allRight xs of Inl e \<Rightarrow> Inl e | Inr ys \<Rightarrow> Inr (y # ys)))"

definition gvNewConstraint :: "string \<Rightarrow> error + (ConstraintOp \<times> nat list) list" where
  "gvNewConstraint v = allRight (map parseSingle (splitOn CHR '','' v))"

definition gvCheck :: "(ConstraintOp \<times> nat list) list \<Rightarrow> nat list \<Rightarrow> bool" where
  "gvCheck cs ver = list_all (\<lambda>c. constraintHolds (fst c) (compareSegments ver (snd c))) cs"

definition goVersion :: "(nat list, (ConstraintOp \<times> nat list) list) VersionLib" where
  "goVersion = \<lparr>NewVersion = gvNewVersion, NewConstraint = gvNewConstraint, Check = gvCheck\<rparr>"

section \<open>The drift-detection hook\<close>










subsection \<open>The other copy of the hook\<close>









section \<open>Notions used to state the properties\<close>

text \<open>
  An object is a deletion candidate of a pass when the pass is a full purge, or when it
  matches the component selector and its hash is not excluded.
\<close>

definition candidate ::
    "'c HelmReconciler \<Rightarrow> Excluded \<Rightarrow> Selector \<Rightarrow> bool \<Rightarrow> Unstructured \<Rightarrow> bool" where
  "candidate h excluded selector all obj =
     (if all then True
      else Matches selector (objLabels obj) \<and> \<not> isExcluded excluded (objHash h obj))"

definition componentSelector :: "'c HelmReconciler \<Rightarrow> LabelSet \<Rightarrow> string \<Rightarrow> Selector" where
  "componentSelector h coreLabels componentName =
     AsSelectorPreValidated (addComponentLabels h coreLabels componentName)"

text \<open>Deleting a list of objects one after the other, from a cluster state: the calls
  with their results, and the cluster state at the end.\<close>

fun deleteTrace ::
    "'c HelmReconciler \<Rightarrow> 'c \<Rightarrow> Unstructured list \<Rightarrow> (Unstructured \<times> error option) list" where
  "deleteTrace h c [] = []"
| "deleteTrace h c (obj # objs) =
     (obj, fst (clientDelete h c obj)) # deleteTrace h (snd (clientDelete h c obj)) objs"

fun deleteFinal :: "'c HelmReconciler \<Rightarrow> 'c \<Rightarrow> Unstructured list \<Rightarrow> 'c" where
  "deleteFinal h c [] = c"
| "deleteFinal h c (obj # objs) = deleteFinal h (snd (clientDelete h c obj)) objs"

text \<open>The errors of a list of delete calls that are not "not found" errors.\<close>

fun failures :: "(Unstructured \<times> error option) list \<Rightarrow> Errors" where
  "failures [] = []"
| "failures (d # ds) =
     (case snd d of
        None \<Rightarrow> failures ds
      | Some e \<Rightarrow> if Contains e ''not found'' then failures ds else e # failures ds)"

text \<open>What a call added to the traces of the world it started from.\<close>

definition newDeleteCalls :: "'c World \<Rightarrow> 'c World \<Rightarrow> (Unstructured \<times> error option) list" where
  "newDeleteCalls w w' = drop (length (deleteCalls w)) (deleteCalls w')"

definition newCacheOps :: "'c World \<Rightarrow> 'c World \<Rightarrow> CacheOp list" where
  "newCacheOps w w' = drop (length (cacheOps w)) (cacheOps w')"

definition newLogLines :: "'c World \<Rightarrow> 'c World \<Rightarrow> LogEntry list" where
  "newLogLines w w' = drop (length (logLines w)) (logLines w')"

definition newListCalls :: "'c World \<Rightarrow> 'c World \<Rightarrow> (GroupVersionKind \<times> Selector) list" where
  "newListCalls w w' = drop (length (listCalls w)) (listCalls w')"

text \<open>The hashes a log reports as "Not pruning object ... because of dry run".\<close>

fun wouldDelete :: "LogEntry list \<Rightarrow> string list" where
  "wouldDelete [] = []"
| "wouldDelete (LogNotPruning oh # ls) = oh # wouldDelete ls"
| "wouldDelete (l # ls) = wouldDelete ls"

subsection \<open>A small cluster to run the reconciler on\<close>

text \<open>
  A client over a cluster kept as the list of its live objects: \<open>List\<close> filters by kind and
  selector; \<open>Delete\<close> refuses the object named \<open>locked\<close>, removes a live object, and
  answers "not found" for any other.
\<close>

definition fakeList ::
    "Unstructured list \<Rightarrow> GroupVersionKind \<Rightarrow> Selector \<Rightarrow> error + Unstructured list" where
  "fakeList c gvk selector =
     Inr (filter (\<lambda>obj. objGVK obj = gvk \<and> Matches selector (objLabels obj)) c)"

definition fakeDelete :: "Unstructured list \<Rightarrow> Unstructured \<Rightarrow> error option \<times> Unstructured list" where
  "fakeDelete c obj =
     (if objName obj = ''locked'' then (Some ''forbidden'', c)
      else if List.member c obj then (None, removeAll obj c)
      else (Some (objName obj @ '' not found''), c))"

definition fakeHash :: "Unstructured \<Rightarrow> string" where
  "fakeHash obj = Kind (objGVK obj) @ '':'' @ objNamespace obj @ '':'' @ objName obj"

definition coreLabels0 :: LabelSet where
  "coreLabels0 = [(''operator.istio.io/managed'', ''Reconcile'')]"

definition fakeReconciler :: "bool \<Rightarrow> Unstructured list HelmReconciler" where
  "fakeReconciler dry =
     \<lparr>clientList = fakeList, clientDelete = fakeDelete, optsDryRun = dry,
      getCoreOwnerLabels = Inr coreLabels0,
      addComponentLabels = (\<lambda>core cn. core @ [(''operator.istio.io/component'', cn)]),
      getCRHash = (\<lambda>cn. (''cr-'' @ cn, None)),
      objHash = fakeHash,
      componentRequirement = Inr (Exists ''operator.istio.io/component''),
      GetIDsFromProxyInfo =
        (\<lambda>pilotLabel ver rev ns. if rev = ''canary'' then ([''sidecar~10.0.0.1''], None)
                                  else ([], None))\<rparr>"

definition pilotLabels :: LabelSet where
  "pilotLabels =
     [(''operator.istio.io/managed'', ''Reconcile''), (''operator.istio.io/component'', ''Pilot'')]"

definition istiod :: Unstructured where
  "istiod = \<lparr>objGVK = GVK ''apps'' ''v1'' ''Deployment'', objNamespace = ''istio-system'',
             objName = ''istiod'', objLabels = pilotLabels\<rparr>"

definition lockedCM :: Unstructured where
  "lockedCM = \<lparr>objGVK = GVK [] ''v1'' ''ConfigMap'', objNamespace = ''istio-system'',
               objName = ''locked'', objLabels = pilotLabels\<rparr>"

definition strayPod :: Unstructured where
  "strayPod = \<lparr>objGVK = GVK [] ''v1'' ''Pod'', objNamespace = ''default'',
               objName = ''stray'', objLabels = []\<rparr>"

definition world0 :: "Unstructured list World" where
  "world0 = \<lparr>cluster = [istiod, lockedCM, strayPod],
             objectCaches = [''cr-Pilot'' \<mapsto> {fakeHash istiod, fakeHash lockedCM}],
             cacheOps = [], logLines = [], deleteCalls = [], listCalls = []\<rparr>"

subsection \<open>The delete calls of a whole pass\<close>




















subsection \<open>Notions used to state the properties of the hooks\<close>

text \<open>A version string satisfies a constraint string when both parse and the check of
  the library holds.\<close>

definition satisfies :: "('v, 'cn) VersionLib \<Rightarrow> string \<Rightarrow> string \<Rightarrow> bool" where
  "satisfies lib verStr constraintStr =
     (case NewVersion lib verStr of
        Inl err \<Rightarrow> False
      | Inr ver \<Rightarrow>
          (case NewConstraint lib constraintStr of
             Inl err \<Rightarrow> False
           | Inr constraint \<Rightarrow> Check lib constraint ver))"

definition mappingMatches ::
    "('v, 'cn) VersionLib \<Rightarrow> ('kobj, 'iops) HookCommonParams \<Rightarrow>
     ('k, ('kobj, 'iops) HookCommonParams, 'st) hookVersionMapping \<Rightarrow> bool" where
  "mappingMatches lib hc m =
     (satisfies lib (SourceVer hc) (sourceVersionConstraint m) \<and>
      satisfies lib (TargetVer hc) (targetVersionConstraint m))"

definition newHooksInvoked :: "'st HookWorld \<Rightarrow> 'st HookWorld \<Rightarrow> string list" where
  "newHooksInvoked w w' = drop (length (hooksInvoked w)) (hooksInvoked w')"

text \<open>The mapping of \<open>preUpgradeHooks\<close>, for any list of hooks.\<close>

definition mapping13 ::
    "('k, 'p, 'st) hook list \<Rightarrow> ('k, 'p, 'st) hookVersionMapping" where
  "mapping13 hs =
     \<lparr>sourceVersionConstraint = ''>=1.3'', targetVersionConstraint = ''>=1.3'', hooks = hs\<rparr>"

definition versions :: "string \<Rightarrow> string \<Rightarrow> (unit, unit) HookCommonParams" where
  "versions src tgt =
     \<lparr>SourceVer = src, TargetVer = tgt, DefaultTelemetryManifest = Map.empty,
      SourceIOPS = (), TargetIOPS = ()\<rparr>"

text \<open>Two hooks over a state that counts the calls: one finds nothing, one reports an
  error.\<close>

definition quietHook :: "(unit, 'p, nat) hook" where
  "quietHook = \<lparr>hookName = ''checkInitCrdJobs'', hookRun = (\<lambda>k p st. ([], Suc st))\<rparr>"

definition failingHook :: "(unit, 'p, nat) hook" where
  "failingHook =
     \<lparr>hookName = ''checkMixerTelemetry'',
      hookRun = (\<lambda>k p st. ([''customized config exists''], Suc st))\<rparr>"

definition hookWorld0 :: "nat HookWorld" where
  "hookWorld0 = \<lparr>hookState = 0, hooksInvoked = [], hookLog = []\<rparr>"





















section \<open>Properties of the deletion routine\<close>

lemmas name_defs =
  HPAStr_def PDBStr_def DeploymentStr_def DaemonSetStr_def ServiceStr_def CMStr_def PVCStr_def
  PodStr_def SecretStr_def SAStr_def RoleBindingStr_def RoleStr_def DestinationRuleStr_def
  EnvoyFilterStr_def GatewayStr_def VirtualServiceStr_def PeerAuthenticationStr_def
  MutatingWebhookConfigurationStr_def ValidatingWebhookConfigurationStr_def ClusterRoleStr_def
  ClusterRoleBindingStr_def CRDStr_def NetworkingAPIGroupName_def SecurityAPIGroupName_def

lemmas fake_defs =
  fakeList_def fakeDelete_def fakeHash_def fakeReconciler_def pilotLabels_def coreLabels0_def
  istiod_def lockedCM_def strayPod_def world0_def GVK_def

lemmas run_defs =
  deleteResources_def deleteResourcesErrs_def deleteItem_def Let_def removeFromObjectCache_def
  AsSelectorPreValidated_def Matches_def isExcluded_def AppendErr_def ToError_def
  RemoveObject_def FlushObjectCaches_def inCache_def

lemma map_fst_deleteTrace: "map fst (deleteTrace h c objs) = objs"
  by (induction objs arbitrary: c) simp_all

lemma deleteItem_skip:
  "\<not> candidate h excluded selector all obj \<Longrightarrow>
   deleteItem h excluded selector componentName all obj s = s"
  by (auto simp: deleteItem_def candidate_def Let_def split: if_splits)

text \<open>Under dry run the loop only logs: one line per candidate, in order.\<close>

lemma deleteItems_dry:
  "optsDryRun h \<Longrightarrow>
   deleteItems h excluded selector componentName all objs s =
     (fst s, (snd s)\<lparr>logLines := logLines (snd s) @
        map (\<lambda>obj. LogNotPruning (objHash h obj))
          (filter (candidate h excluded selector all) objs)\<rparr>)"
proof (induction objs arbitrary: s)
  case Nil
  then show ?case by simp
next
  case (Cons obj objs)
  show ?case
  proof (cases "candidate h excluded selector all obj")
    case True
    then have "deleteItem h excluded selector componentName all obj s =
        (fst s, (snd s)\<lparr>logLines := logLines (snd s) @ [LogNotPruning (objHash h obj)]\<rparr>)"
      using Cons.prems by (auto simp: deleteItem_def candidate_def Let_def split: if_splits)
    then show ?thesis using Cons True by simp
  next
    case False
    then show ?thesis using Cons by (simp add: deleteItem_skip)
  qed
qed

text \<open>Without dry run the loop issues one delete per candidate, in order, whatever the
  earlier deletes answered; the other components of the result follow from the trace.\<close>

lemma deleteItems_wet_aux:
  assumes "\<not> optsDryRun h" and P: "\<And>obj. P obj = candidate h excluded selector all obj"
  shows "deleteCalls (snd (deleteItems h excluded selector componentName all objs s)) =
           deleteCalls (snd s) @ deleteTrace h (cluster (snd s)) (filter P objs)
       \<and> cluster (snd (deleteItems h excluded selector componentName all objs s)) =
           deleteFinal h (cluster (snd s)) (filter P objs)
       \<and> fst (deleteItems h excluded selector componentName all objs s) =
           fst s @ failures (deleteTrace h (cluster (snd s)) (filter P objs))
       \<and> listCalls (snd (deleteItems h excluded selector componentName all objs s)) =
           listCalls (snd s)
       \<and> cacheOps (snd (deleteItems h excluded selector componentName all objs s)) =
           cacheOps (snd s) @ (if all then [] else
              map (\<lambda>obj. OpRemoveObject (fst (getCRHash h componentName)) (objHash h obj))
                (filter P objs))
       \<and> objectCaches (snd (deleteItems h excluded selector componentName all objs s)) =
           (if all then objectCaches (snd s) else
              foldl (\<lambda>c obj. RemoveObject (fst (getCRHash h componentName)) (objHash h obj) c)
                (objectCaches (snd s)) (filter P objs))"
proof (induction objs arbitrary: s)
  case Nil
  then show ?case by simp
next
  case (Cons obj objs)
  show ?case
  proof (cases "P obj")
    case False
    then have "deleteItem h excluded selector componentName all obj s = s"
      using P deleteItem_skip by blast
    then show ?thesis using Cons.IH[of s] False by simp
  next
    case True
    let ?s1 = "deleteItem h excluded selector componentName all obj s"
    let ?r = "clientDelete h (cluster (snd s)) obj"
    have cand: "all \<or> (Matches selector (objLabels obj) \<and> \<not> isExcluded excluded (objHash h obj))"
      using True P by (auto simp: candidate_def split: if_splits)
    have c: "cluster (snd ?s1) = snd ?r"
      using cand assms(1)
      by (auto simp: deleteItem_def Let_def removeFromObjectCache_def split: option.splits)
    have d: "deleteCalls (snd ?s1) = deleteCalls (snd s) @ [(obj, fst ?r)]"
      using cand assms(1)
      by (auto simp: deleteItem_def Let_def removeFromObjectCache_def split: option.splits)
    have e: "fst ?s1 @ failures rest = fst s @ failures ((obj, fst ?r) # rest)" for rest
      using cand assms(1)
      by (auto simp: deleteItem_def Let_def AppendErr_def split: option.splits)
    have l: "listCalls (snd ?s1) = listCalls (snd s)"
      using cand assms(1)
      by (auto simp: deleteItem_def Let_def removeFromObjectCache_def split: option.splits)
    have o: "cacheOps (snd ?s1) = cacheOps (snd s) @
        (if all then [] else [OpRemoveObject (fst (getCRHash h componentName)) (objHash h obj)])"
      using cand assms(1)
      by (auto simp: deleteItem_def Let_def removeFromObjectCache_def split: option.splits)
    have oc: "objectCaches (snd ?s1) =
        (if all then objectCaches (snd s)
         else RemoveObject (fst (getCRHash h componentName)) (objHash h obj) (objectCaches (snd s)))"
      using cand assms(1)
      by (auto simp: deleteItem_def Let_def removeFromObjectCache_def split: option.splits)
    show ?thesis
      using Cons.IH[of ?s1] True c d l o oc
        e[of "deleteTrace h (snd ?r) (filter P objs)"]
      by (cases all) simp_all
  qed
qed

text \<open>The two modes of \<open>deleteResourcesErrs\<close>, component by component.\<close>

lemma deleteResourcesErrs_dry:
  assumes "optsDryRun h"
  shows "deleteResourcesErrs h excluded coreLabels componentName objects all w =
     ([], w\<lparr>logLines := logLines w @ map (\<lambda>obj. LogNotPruning (objHash h obj))
               (filter (candidate h excluded (componentSelector h coreLabels componentName) all)
                  objects),
            objectCaches := (if all then Map.empty else objectCaches w),
            cacheOps := cacheOps w @ (if all then [OpFlushObjectCaches] else [])\<rparr>)"
  using assms
  by (simp add: deleteResourcesErrs_def Let_def deleteItems_dry componentSelector_def
      FlushObjectCaches_def)

lemma deleteResourcesErrs_wet:
  fixes h :: "'c HelmReconciler"
  assumes "\<not> optsDryRun h"
    and "cands = filter (candidate h excluded (componentSelector h coreLabels componentName) all) objects"
    and "r = deleteResourcesErrs h excluded coreLabels componentName objects all w"
  shows "deleteCalls (snd r) = deleteCalls w @ deleteTrace h (cluster w) cands"
    and "cluster (snd r) = deleteFinal h (cluster w) cands"
    and "fst r = failures (deleteTrace h (cluster w) cands)"
    and "listCalls (snd r) = listCalls w"
    and "cacheOps (snd r) = cacheOps w @ (if all then [OpFlushObjectCaches] else
            map (\<lambda>obj. OpRemoveObject (fst (getCRHash h componentName)) (objHash h obj)) cands)"
    and "objectCaches (snd r) = (if all then Map.empty else
            foldl (\<lambda>c obj. RemoveObject (fst (getCRHash h componentName)) (objHash h obj) c)
              (objectCaches w) cands)"
  using deleteItems_wet_aux[OF assms(1), of "candidate h excluded (componentSelector h coreLabels componentName) all"
      excluded "componentSelector h coreLabels componentName" all componentName objects "([], w)"]
  unfolding assms(2,3)
  by (cases all; simp add: deleteResourcesErrs_def Let_def componentSelector_def FlushObjectCaches_def)+

lemma newDeleteCalls_append: "deleteCalls w' = deleteCalls w @ ds \<Longrightarrow> newDeleteCalls w w' = ds"
  by (simp add: newDeleteCalls_def)

lemma newCacheOps_append: "cacheOps w' = cacheOps w @ ops \<Longrightarrow> newCacheOps w w' = ops"
  by (simp add: newCacheOps_def)

lemma newLogLines_append: "logLines w' = logLines w @ ls \<Longrightarrow> newLogLines w w' = ls"
  by (simp add: newLogLines_def)

lemma newListCalls_append: "listCalls w' = listCalls w @ ls \<Longrightarrow> newListCalls w w' = ls"
  by (simp add: newListCalls_def)

lemma wouldDelete_NotPruning: "wouldDelete (map (\<lambda>obj. LogNotPruning (f obj)) objs) = map f objs"
  by (induction objs) simp_all

lemma inCache_RemoveObject:
  "inCache (RemoveObject k0 x0 c) k x = (inCache c k x \<and> \<not> (k = k0 \<and> x = x0))"
  by (auto simp: inCache_def RemoveObject_def split: option.splits)

lemma inCache_foldl_RemoveObject:
  "inCache (foldl (\<lambda>c obj. RemoveObject k0 (f obj) c) c objs) k x =
     (inCache c k x \<and> \<not> (k = k0 \<and> x \<in> f ` set objs))"
  by (induction objs arbitrary: c) (auto simp: inCache_RemoveObject)

lemma snd_deleteResources:
  "snd (deleteResources h excluded coreLabels componentName objects all w) =
   snd (deleteResourcesErrs h excluded coreLabels componentName objects all w)"
  by (simp add: deleteResources_def Let_def)


lemma deleteResources_dry_calls:
  "optsDryRun h \<Longrightarrow>
   deleteCalls (snd (deleteResources h excluded coreLabels componentName objects all w)) =
     deleteCalls w
   \<and> cluster (snd (deleteResources h excluded coreLabels componentName objects all w)) = cluster w
   \<and> listCalls (snd (deleteResources h excluded coreLabels componentName objects all w)) =
     listCalls w"
  by (simp add: snd_deleteResources deleteResourcesErrs_dry)

lemma deleteResources_wet_calls:
  "\<not> optsDryRun h \<Longrightarrow>
   newDeleteCalls w (snd (deleteResources h excluded coreLabels componentName objects all w)) =
     deleteTrace h (cluster w)
       (filter (candidate h excluded (componentSelector h coreLabels componentName) all) objects)"
  by (rule newDeleteCalls_append) (simp add: snd_deleteResources deleteResourcesErrs_wet(1))


subsection \<open>Properties of the loop over the kinds\<close>

lemma deleteResources_listCalls:
  "listCalls (snd (deleteResources h excluded coreLabels componentName objects all w)) =
   listCalls w"
proof (cases "optsDryRun h")
  case True
  then show ?thesis using deleteResources_dry_calls by blast
next
  case False
  then show ?thesis
    by (simp add: snd_deleteResources deleteResourcesErrs_wet(4)[OF False refl refl])
qed

lemma pruneComponents_listCalls:
  "listCalls (snd (pruneComponents h labels objects all ms s)) = listCalls (snd s)"
  by (induction ms arbitrary: s) (simp_all add: deleteResources_listCalls)

lemma pruneCallback_listCalls:
  "listCalls (snd (pruneCallback h manifests all labels objects w)) = listCalls w"
  by (simp add: pruneCallback_def deleteResources_listCalls pruneComponents_listCalls)

text \<open>Every kind of the list is listed, in order, whatever the callback returns, as long
  as the callback does no listing of its own.\<close>

lemma runForTypes_listCalls:
  assumes req: "componentRequirement h = Inr req"
    and cb: "\<And>labels objects w. listCalls (snd (callback labels objects w)) = listCalls w"
  shows "map fst (listCalls (snd (runForTypes h callback labels gvks s))) =
         map fst (listCalls (snd (snd s))) @ gvks"
proof (induction gvks arbitrary: s)
  case Nil
  then show ?case by simp
next
  case (Cons gvk gvks)
  show ?case
    by (cases "clientList h (cluster (snd (snd s))) gvk (Add (fst (snd s)) req)")
       (simp_all add: req Let_def Cons.IH cb)
qed

lemma Prune_listCalls:
  assumes "getCoreOwnerLabels h = Inr labels" and "componentRequirement h = Inr req"
  shows "map fst (newListCalls w (snd (Prune h manifests all w))) =
         NamespacedResources @ ClusterResources"
proof -
  have "map fst (listCalls (snd (Prune h manifests all w))) =
        map fst (listCalls w) @ (NamespacedResources @ ClusterResources)"
    using runForTypes_listCalls[OF assms(2), of "pruneCallback h manifests all" labels
        "NamespacedResources @ ClusterResources" "([], AsSelectorPreValidated labels, w)"]
    by (simp add: Prune_def runForAllTypes_def assms(1) pruneCallback_listCalls)
  then show ?thesis
    by (simp add: newListCalls_def drop_map[symmetric])
qed



text \<open>The only kind list that depends on the mode is the one of
  \<open>GetPrunedResourcesByRevision\<close>: with \<open>purge\<close> it is \<open>AllClusterResources\<close>, which holds the CRD
  kind.\<close>

lemma getPrunedLoop_listCalls:
  assumes "componentRequirement h = Inr req"
  shows "map fst (listCalls (snd (snd (snd (getPrunedLoop h gvks s))))) =
         map fst (listCalls (snd (snd (snd s)))) @ gvks"
proof (induction gvks arbitrary: s)
  case Nil
  then show ?case by simp
next
  case (Cons gvk gvks)
  show ?case
    by (cases "clientList h (cluster (snd (snd (snd s)))) gvk (Add (fst (snd (snd s))) req)")
       (simp_all add: assms Let_def Cons.IH)
qed

lemma GetPrunedResourcesByRevision_listCalls:
  assumes "componentRequirement h = Inr req"
  shows "map fst (newListCalls w (snd (snd (snd (GetPrunedResourcesByRevision h revision purge w)))))
         = (if purge then AllClusterResources else NamespacedResources @ NonNamespacedCPResources)"
    and "CRDKind \<in> set AllClusterResources"
proof -
  have "map fst (listCalls (snd (snd (snd (GetPrunedResourcesByRevision h revision purge w))))) =
        map fst (listCalls w) @
          (if purge then AllClusterResources else NamespacedResources @ NonNamespacedCPResources)"
    using getPrunedLoop_listCalls[OF assms]
    by (simp add: GetPrunedResourcesByRevision_def Let_def)
  then show "map fst (newListCalls w
               (snd (snd (snd (GetPrunedResourcesByRevision h revision purge w)))))
         = (if purge then AllClusterResources else NamespacedResources @ NonNamespacedCPResources)"
    by (simp add: newListCalls_def drop_map[symmetric])
  show "CRDKind \<in> set AllClusterResources"
    by (simp add: AllClusterResources_def)
qed

text \<open>Under dry run neither the cluster nor the trace of delete calls changes, at any
  level of the pruning.\<close>

lemma pruneComponents_dry_frame:
  "optsDryRun h \<Longrightarrow>
   cluster (snd (pruneComponents h labels objects all ms s)) = cluster (snd s) \<and>
   deleteCalls (snd (pruneComponents h labels objects all ms s)) = deleteCalls (snd s)"
  by (induction ms arbitrary: s) (simp_all add: deleteResources_dry_calls)

lemma pruneCallback_dry_frame:
  "optsDryRun h \<Longrightarrow>
   cluster (snd (pruneCallback h manifests all labels objects w)) = cluster w \<and>
   deleteCalls (snd (pruneCallback h manifests all labels objects w)) = deleteCalls w"
  by (simp add: pruneCallback_def deleteResources_dry_calls pruneComponents_dry_frame)

lemma runForTypes_frame:
  assumes cb: "\<And>labels objects w. cluster (snd (callback labels objects w)) = cluster w \<and>
                 deleteCalls (snd (callback labels objects w)) = deleteCalls w"
  shows "cluster (snd (runForTypes h callback labels gvks s)) = cluster (snd (snd s)) \<and>
         deleteCalls (snd (runForTypes h callback labels gvks s)) = deleteCalls (snd (snd s))"
proof (induction gvks arbitrary: s)
  case Nil
  then show ?case by simp
next
  case (Cons gvk gvks)
  show ?case
  proof (cases "componentRequirement h")
    case (Inl err)
    then show ?thesis by (simp add: Let_def)
  next
    case (Inr req)
    then show ?thesis
      by (cases "clientList h (cluster (snd (snd s))) gvk (Add (fst (snd s)) req)")
         (simp_all add: Let_def Cons.IH cb)
  qed
qed

lemma Prune_dry_frame:
  assumes "optsDryRun h"
  shows "cluster (snd (Prune h manifests all w)) = cluster w \<and>
         deleteCalls (snd (Prune h manifests all w)) = deleteCalls w"
proof (cases "getCoreOwnerLabels h")
  case (Inl err)
  then show ?thesis by (simp add: Prune_def runForAllTypes_def)
next
  case (Inr labels)
  then show ?thesis
    using runForTypes_frame[of "pruneCallback h manifests all" h labels
        "NamespacedResources @ ClusterResources" "([], AsSelectorPreValidated labels, w)"]
      pruneCallback_dry_frame[OF assms]
    by (simp add: Prune_def runForAllTypes_def)
qed

subsection \<open>The delete calls and the returned error of a whole pass\<close>













section \<open>The claims about pruning\<close>

text \<open>
  C4. In selective mode (\<open>all = False\<close>) no delete call is issued for an object whose hash
  the exclusion map holds as true, whatever its labels, the other objects and the
  dry-run option are.
\<close>

theorem C4_excluded_never_deleted:
  "isExcluded excluded (objHash h obj) \<Longrightarrow>
   obj \<notin> fst ` set (newDeleteCalls w
            (snd (deleteResources h excluded coreLabels componentName objects False w)))"
proof (cases "optsDryRun h")
  case True
  then show ?thesis
    using deleteResources_dry_calls[of h excluded coreLabels componentName objects False w]
    by (simp add: newDeleteCalls_def)
next
  case False
  assume ex: "isExcluded excluded (objHash h obj)"
  have "fst ` set (newDeleteCalls w
            (snd (deleteResources h excluded coreLabels componentName objects False w))) =
        set (filter (candidate h excluded (componentSelector h coreLabels componentName) False)
               objects)"
    using deleteResources_wet_calls[OF False, of w excluded coreLabels componentName objects False]
      map_fst_deleteTrace[of h "cluster w"]
    by (metis set_map)
  then show ?thesis using ex by (simp add: candidate_def)
qed

theorem C4_excluded_never_deleted_witness:
  "isExcluded [fakeHash istiod \<mapsto> True] (objHash (fakeReconciler False) istiod) \<and>
   istiod \<notin> fst ` set (newDeleteCalls world0
      (snd (deleteResources (fakeReconciler False) [fakeHash istiod \<mapsto> True] coreLabels0
              ''Pilot'' [istiod, lockedCM] False world0)))"
  using C4_excluded_never_deleted[of "[fakeHash istiod \<mapsto> True]" "fakeReconciler False" istiod
      world0 coreLabels0 "''Pilot''" "[istiod, lockedCM]"]
  by (simp add: isExcluded_def fakeReconciler_def)

text \<open>
  C1, as amended. In a selective pass without dry run, a hash leaves the object cache
  under the owner key of the component exactly when a delete call was issued for an
  object with that hash, whatever the call answered (success, "not found" or any other
  error); there is one cache removal per delete call, in the same order. All other
  entries of the cache stay as they were.
\<close>

theorem C1_cache_removal_per_delete_call:
  "\<not> optsDryRun h \<Longrightarrow>
   newCacheOps w (snd (deleteResources h excluded coreLabels componentName objects False w)) =
     map (\<lambda>d. OpRemoveObject (fst (getCRHash h componentName)) (objHash h (fst d)))
       (newDeleteCalls w (snd (deleteResources h excluded coreLabels componentName objects False w)))
   \<and> inCache (objectCaches
        (snd (deleteResources h excluded coreLabels componentName objects False w))) k x =
     (inCache (objectCaches w) k x \<and>
      \<not> (k = fst (getCRHash h componentName) \<and>
         x \<in> objHash h ` fst ` set (newDeleteCalls w
               (snd (deleteResources h excluded coreLabels componentName objects False w)))))"
proof -
  assume wet: "\<not> optsDryRun h"
  let ?cands = "filter (candidate h excluded (componentSelector h coreLabels componentName) False)
                  objects"
  let ?w' = "snd (deleteResources h excluded coreLabels componentName objects False w)"
  have calls: "newDeleteCalls w ?w' = deleteTrace h (cluster w) ?cands"
    using deleteResources_wet_calls[OF wet] .
  have objs: "map fst (newDeleteCalls w ?w') = ?cands"
    by (simp add: calls map_fst_deleteTrace)
  have ops: "newCacheOps w ?w' =
      map (\<lambda>obj. OpRemoveObject (fst (getCRHash h componentName)) (objHash h obj)) ?cands"
    by (rule newCacheOps_append) (simp add: snd_deleteResources deleteResourcesErrs_wet(5)[OF wet refl refl])
  have cache: "objectCaches ?w' =
      foldl (\<lambda>c obj. RemoveObject (fst (getCRHash h componentName)) (objHash h obj) c)
        (objectCaches w) ?cands"
    by (simp add: snd_deleteResources deleteResourcesErrs_wet(6)[OF wet refl refl])
  have "newCacheOps w ?w' =
      map (\<lambda>d. OpRemoveObject (fst (getCRHash h componentName)) (objHash h (fst d)))
        (newDeleteCalls w ?w')"
    using ops objs by (metis (no_types, lifting) map_map comp_def map_eq_conv)
  moreover have "fst ` set (newDeleteCalls w ?w') = set ?cands"
    using objs by (metis set_map)
  ultimately show ?thesis
    by (simp add: cache inCache_foldl_RemoveObject)
qed

theorem C1_cache_removal_per_delete_call_witness:
  "\<not> optsDryRun (fakeReconciler False) \<and>
   newDeleteCalls world0
     (snd (deleteResources (fakeReconciler False) Map.empty coreLabels0 ''Pilot''
             [istiod, lockedCM] False world0)) =
     [(istiod, None), (lockedCM, Some ''forbidden'')] \<and>
   newCacheOps world0
     (snd (deleteResources (fakeReconciler False) Map.empty coreLabels0 ''Pilot''
             [istiod, lockedCM] False world0)) =
     [OpRemoveObject ''cr-Pilot'' (fakeHash istiod), OpRemoveObject ''cr-Pilot'' (fakeHash lockedCM)]"
proof -
  have calls: "newDeleteCalls world0
     (snd (deleteResources (fakeReconciler False) Map.empty coreLabels0 ''Pilot''
             [istiod, lockedCM] False world0)) =
     [(istiod, None), (lockedCM, Some ''forbidden'')]"
    by (simp add: newDeleteCalls_def fake_defs run_defs)
  show ?thesis
    using C1_cache_removal_per_delete_call[of "fakeReconciler False" world0 Map.empty coreLabels0
        "''Pilot''" "[istiod, lockedCM]" "''cr-Pilot''" "fakeHash lockedCM"]
    by (simp add: calls) (simp add: fakeReconciler_def)
qed

theorem C1_failed_delete_still_removed_counterexample:
  "deleteCalls (snd (deleteResources (fakeReconciler False) Map.empty coreLabels0 ''Pilot''
                       [lockedCM] False world0)) = [(lockedCM, Some ''forbidden'')] \<and>
   \<not> Contains ''forbidden'' ''not found'' \<and>
   inCache (objectCaches world0) ''cr-Pilot'' (fakeHash lockedCM) \<and>
   \<not> inCache (objectCaches (snd (deleteResources (fakeReconciler False) Map.empty coreLabels0
                                   ''Pilot'' [lockedCM] False world0)))
       ''cr-Pilot'' (fakeHash lockedCM)"
  by (simp add: fake_defs run_defs)

text \<open>
  C10. With dry run set and in full-purge mode (\<open>all = True\<close>) the deletion routine issues
  no delete call, leaves the cluster as it was and removes no single object from the
  cache; its only call into the cache is the flush at the end, after which the cache is
  empty.
\<close>

theorem C10_dry_run_full_purge_flushes_cache:
  "optsDryRun h \<Longrightarrow>
   newDeleteCalls w (snd (deleteResources h excluded coreLabels componentName objects True w)) = []
   \<and> cluster (snd (deleteResources h excluded coreLabels componentName objects True w)) = cluster w
   \<and> newCacheOps w (snd (deleteResources h excluded coreLabels componentName objects True w)) =
       [OpFlushObjectCaches]
   \<and> objectCaches (snd (deleteResources h excluded coreLabels componentName objects True w)) =
       Map.empty"
  by (simp add: snd_deleteResources deleteResourcesErrs_dry newDeleteCalls_def newCacheOps_def)

theorem C10_dry_run_full_purge_flushes_cache_witness:
  "optsDryRun (fakeReconciler True) \<and>
   inCache (objectCaches world0) ''cr-Pilot'' (fakeHash istiod) \<and>
   newDeleteCalls world0
     (snd (deleteResources (fakeReconciler True) Map.empty coreLabels0 [] [istiod, strayPod]
             True world0)) = [] \<and>
   objectCaches
     (snd (deleteResources (fakeReconciler True) Map.empty coreLabels0 [] [istiod, strayPod]
             True world0)) = Map.empty"
  using C10_dry_run_full_purge_flushes_cache[of "fakeReconciler True" world0 Map.empty
      coreLabels0 "[]" "[istiod, strayPod]"]
  by (simp add: fakeReconciler_def) (simp add: world0_def inCache_def)

text \<open>
  C5, as amended. A full-purge pass (\<open>all = True\<close>) leaves the object cache empty, for any
  prior cache contents and with or without dry run: its one call into the cache is the
  flush. When dry run is not set it issues a delete call for every listed object, in
  order, whatever the core labels, the component name and the exclusion map are.
\<close>

theorem C5_full_purge_deletes_all_and_flushes:
  "objectCaches (snd (deleteResources h excluded coreLabels componentName objects True w)) =
     Map.empty
   \<and> newCacheOps w (snd (deleteResources h excluded coreLabels componentName objects True w)) =
       [OpFlushObjectCaches]
   \<and> (\<not> optsDryRun h \<longrightarrow>
        map fst (newDeleteCalls w
                   (snd (deleteResources h excluded coreLabels componentName objects True w))) =
          objects)"
proof (cases "optsDryRun h")
  case True
  then show ?thesis
    by (simp add: snd_deleteResources deleteResourcesErrs_dry newCacheOps_def)
next
  case False
  have "objectCaches (snd (deleteResources h excluded coreLabels componentName objects True w)) =
     Map.empty"
    by (simp add: snd_deleteResources deleteResourcesErrs_wet(6)[OF False refl refl])
  moreover have "newCacheOps w
      (snd (deleteResources h excluded coreLabels componentName objects True w)) =
      [OpFlushObjectCaches]"
    by (rule newCacheOps_append)
       (simp add: snd_deleteResources deleteResourcesErrs_wet(5)[OF False refl refl])
  moreover have "map fst (newDeleteCalls w
        (snd (deleteResources h excluded coreLabels componentName objects True w))) = objects"
    by (simp add: deleteResources_wet_calls[OF False] map_fst_deleteTrace candidate_def)
  ultimately show ?thesis by simp
qed

theorem C5_full_purge_deletes_all_and_flushes_witness:
  "\<not> optsDryRun (fakeReconciler False) \<and>
   \<not> Matches (componentSelector (fakeReconciler False) coreLabels0 []) (objLabels strayPod) \<and>
   isExcluded [fakeHash istiod \<mapsto> True] (fakeHash istiod) \<and>
   map fst (newDeleteCalls world0
     (snd (deleteResources (fakeReconciler False) [fakeHash istiod \<mapsto> True] coreLabels0 []
             [istiod, strayPod] True world0))) = [istiod, strayPod] \<and>
   objectCaches
     (snd (deleteResources (fakeReconciler False) [fakeHash istiod \<mapsto> True] coreLabels0 []
             [istiod, strayPod] True world0)) = Map.empty"
  using C5_full_purge_deletes_all_and_flushes[of "fakeReconciler False" "[fakeHash istiod \<mapsto> True]"
      coreLabels0 "[]" "[istiod, strayPod]" world0]
  by (simp add: fakeReconciler_def)
     (simp add: componentSelector_def AsSelectorPreValidated_def Matches_def isExcluded_def
        coreLabels0_def strayPod_def)

theorem C5_dry_run_full_purge_deletes_nothing_counterexample:
  "optsDryRun (fakeReconciler True) \<and>
   deleteCalls (snd (deleteResources (fakeReconciler True) Map.empty coreLabels0 [] [istiod] True
                       world0)) = [] \<and>
   cluster (snd (deleteResources (fakeReconciler True) Map.empty coreLabels0 [] [istiod] True
                   world0)) = [istiod, lockedCM, strayPod]"
  by (simp add: fake_defs run_defs)

text \<open>
  C7. For the same exclusion map, labels, component and listed objects, a pass with dry
  run set issues no delete call and leaves the cluster as it was, and the hashes it
  reports as not pruned because of dry run are, in order, the hashes of the objects for
  which the pass without dry run issues a delete call. A whole \<open>Prune\<close> with dry run set
  issues no delete call either and leaves the cluster as it was.
\<close>

theorem C7_dry_run_reports_what_would_be_deleted:
  "newDeleteCalls w
     (snd (deleteResources (h\<lparr>optsDryRun := True\<rparr>) excluded coreLabels componentName objects all w))
     = []
   \<and> cluster
       (snd (deleteResources (h\<lparr>optsDryRun := True\<rparr>) excluded coreLabels componentName objects all w))
     = cluster w
   \<and> wouldDelete (newLogLines w
       (snd (deleteResources (h\<lparr>optsDryRun := True\<rparr>) excluded coreLabels componentName objects all w)))
     = map (\<lambda>d. objHash h (fst d))
         (newDeleteCalls w
            (snd (deleteResources (h\<lparr>optsDryRun := False\<rparr>) excluded coreLabels componentName
                    objects all w)))
   \<and> newDeleteCalls w (snd (Prune (h\<lparr>optsDryRun := True\<rparr>) manifests all w)) = []
   \<and> cluster (snd (Prune (h\<lparr>optsDryRun := True\<rparr>) manifests all w)) = cluster w"
proof -
  let ?hd = "h\<lparr>optsDryRun := True\<rparr>" and ?hw = "h\<lparr>optsDryRun := False\<rparr>"
  have same: "candidate ?hd excluded (componentSelector ?hd coreLabels componentName) all =
              candidate ?hw excluded (componentSelector ?hw coreLabels componentName) all"
    by (rule ext) (simp add: candidate_def componentSelector_def)
  have dry: "optsDryRun ?hd" and wet: "\<not> optsDryRun ?hw" by simp_all
  have log: "newLogLines w (snd (deleteResources ?hd excluded coreLabels componentName objects all w)) =
      map (\<lambda>obj. LogNotPruning (objHash ?hd obj))
        (filter (candidate ?hd excluded (componentSelector ?hd coreLabels componentName) all) objects)"
    by (rule newLogLines_append) (simp add: snd_deleteResources deleteResourcesErrs_dry[OF dry])
  have calls: "map fst (newDeleteCalls w
        (snd (deleteResources ?hw excluded coreLabels componentName objects all w))) =
      filter (candidate ?hw excluded (componentSelector ?hw coreLabels componentName) all) objects"
    by (simp add: deleteResources_wet_calls[OF wet] map_fst_deleteTrace)
  have "wouldDelete (newLogLines w
          (snd (deleteResources ?hd excluded coreLabels componentName objects all w))) =
        map (objHash h) (filter (candidate ?hw excluded
               (componentSelector ?hw coreLabels componentName) all) objects)"
    by (simp add: log same wouldDelete_NotPruning)
  also have "\<dots> = map (\<lambda>d. objHash h (fst d)) (newDeleteCalls w
        (snd (deleteResources ?hw excluded coreLabels componentName objects all w)))"
    using calls by (metis (no_types, lifting) map_map comp_def map_eq_conv)
  finally show ?thesis
    using deleteResources_dry_calls[OF dry, of excluded coreLabels componentName objects all w]
      Prune_dry_frame[OF dry, of manifests all w]
    by (simp add: newDeleteCalls_def)
qed

theorem C7_dry_run_reports_what_would_be_deleted_witness:
  "wouldDelete (newLogLines world0
       (snd (deleteResources ((fakeReconciler False)\<lparr>optsDryRun := True\<rparr>) Map.empty coreLabels0
               ''Pilot'' [istiod, strayPod] False world0)))
     = [fakeHash istiod] \<and>
   newDeleteCalls world0
       (snd (deleteResources ((fakeReconciler False)\<lparr>optsDryRun := False\<rparr>) Map.empty coreLabels0
               ''Pilot'' [istiod, strayPod] False world0))
     = [(istiod, None)]"
proof -
  have calls: "newDeleteCalls world0
       (snd (deleteResources ((fakeReconciler False)\<lparr>optsDryRun := False\<rparr>) Map.empty coreLabels0
               ''Pilot'' [istiod, strayPod] False world0))
     = [(istiod, None)]"
    by (simp add: newDeleteCalls_def fake_defs run_defs)
  show ?thesis
    using C7_dry_run_reports_what_would_be_deleted[of world0 "fakeReconciler False" Map.empty
        coreLabels0 "''Pilot''" "[istiod, strayPod]" False]
    by (simp add: calls) (simp add: fakeReconciler_def)
qed

text \<open>
  C2, as amended. \<open>Prune\<close> lists the same kinds in full-purge mode and in selective mode:
  the namespace-scoped kinds followed by the cluster-scoped kinds, in their declared
  order, and the CRD kind is not among them. (The owner labels and the component
  requirement must have been built: otherwise \<open>Prune\<close> returns before any listing.)
\<close>

theorem C2_prune_lists_same_kinds_in_both_modes:
  "getCoreOwnerLabels h = Inr labels \<Longrightarrow> componentRequirement h = Inr req \<Longrightarrow>
   map fst (newListCalls w (snd (Prune h manifests all w))) =
     NamespacedResources @ ClusterResources
   \<and> CRDKind \<notin> set (NamespacedResources @ ClusterResources)"
proof -
  assume a: "getCoreOwnerLabels h = Inr labels" "componentRequirement h = Inr req"
  have "CRDKind \<notin> set (NamespacedResources @ ClusterResources)"
    by (simp add: CRDKind_def NamespacedResources_def ClusterResources_def GVK_def name_defs)
  then show ?thesis using Prune_listCalls[OF a] by simp
qed

theorem C2_prune_lists_same_kinds_in_both_modes_witness:
  "getCoreOwnerLabels (fakeReconciler False) = Inr coreLabels0 \<and>
   componentRequirement (fakeReconciler False) = Inr (Exists ''operator.istio.io/component'') \<and>
   map fst (newListCalls world0 (snd (Prune (fakeReconciler False) [] True world0))) =
     NamespacedResources @ ClusterResources \<and>
   map fst (newListCalls world0
     (snd (Prune (fakeReconciler False) [(''Pilot'', Map.empty)] False world0))) =
     NamespacedResources @ ClusterResources"
  using C2_prune_lists_same_kinds_in_both_modes[of "fakeReconciler False" coreLabels0
      "Exists ''operator.istio.io/component''" world0 "[]" True]
    C2_prune_lists_same_kinds_in_both_modes[of "fakeReconciler False" coreLabels0
      "Exists ''operator.istio.io/component''" world0 "[(''Pilot'', Map.empty)]" False]
  by (simp add: fakeReconciler_def)

theorem C2_full_purge_lists_namespaced_kinds_counterexample:
  "\<not> set (map fst (newListCalls world0 (snd (Prune (fakeReconciler False) [] True world0))))
       \<subset> set (map fst (newListCalls world0
             (snd (Prune (fakeReconciler False) [(''Pilot'', Map.empty)] False world0)))) \<and>
   GVK ''apps'' ''v1'' DeploymentStr
     \<in> set (map fst (newListCalls world0 (snd (Prune (fakeReconciler False) [] True world0)))) \<and>
   GVK ''apps'' ''v1'' DeploymentStr \<notin> set ClusterResources"
proof -
  have l: "getCoreOwnerLabels (fakeReconciler False) = Inr coreLabels0"
    and r: "componentRequirement (fakeReconciler False) =
            Inr (Exists ''operator.istio.io/component'')"
    by (simp_all add: fakeReconciler_def)
  have "GVK ''apps'' ''v1'' DeploymentStr \<in> set (NamespacedResources @ ClusterResources)"
    by (simp add: NamespacedResources_def)
  moreover have "GVK ''apps'' ''v1'' DeploymentStr \<notin> set ClusterResources"
    by (simp add: ClusterResources_def GVK_def)
  ultimately show ?thesis
    by (simp add: Prune_listCalls[OF l r])
qed




subsection \<open>Pruning by revision\<close>

text \<open>
  C9. When the query for the proxies of the revision returns a non-empty list of
  identifiers, \<open>PruneControlPlaneByRevisionWithController\<close> returns the error status and
  an error, and the world is the one it started from: no list call, no delete call, no
  change of the cluster or of the cache. When the query itself reported no error, the
  error returned is the one naming the proxies that still point to the control plane.
\<close>

theorem C9_active_proxies_block_pruning:
  "fst (GetIDsFromProxyInfo h [] [] revision (if ns = [] then istioDefaultNamespace else ns)) \<noteq> []
   \<Longrightarrow>
   fst (PruneControlPlaneByRevisionWithController h ns revision w) = InstallStatus_ERROR
   \<and> fst (snd (PruneControlPlaneByRevisionWithController h ns revision w)) \<noteq> None
   \<and> snd (snd (PruneControlPlaneByRevisionWithController h ns revision w)) = w
   \<and> (snd (GetIDsFromProxyInfo h [] [] revision (if ns = [] then istioDefaultNamespace else ns))
        = None \<longrightarrow>
      fst (snd (PruneControlPlaneByRevisionWithController h ns revision w)) =
        Some (''there are proxies still pointing to the pruned control plane: '' @
              Join (fst (GetIDsFromProxyInfo h [] [] revision
                      (if ns = [] then istioDefaultNamespace else ns))) '' ''))"
  by (cases "snd (GetIDsFromProxyInfo h [] [] revision
                    (if ns = [] then istioDefaultNamespace else ns))")
     (simp_all add: PruneControlPlaneByRevisionWithController_def Let_def)

theorem C9_active_proxies_block_pruning_witness:
  "GetIDsFromProxyInfo (fakeReconciler False) [] [] ''canary'' istioDefaultNamespace =
     ([''sidecar~10.0.0.1''], None) \<and>
   PruneControlPlaneByRevisionWithController (fakeReconciler False) [] ''canary'' world0 =
     (InstallStatus_ERROR,
      Some ''there are proxies still pointing to the pruned control plane: sidecar~10.0.0.1'',
      world0)"
proof -
  have q: "GetIDsFromProxyInfo (fakeReconciler False) [] [] ''canary'' istioDefaultNamespace =
     ([''sidecar~10.0.0.1''], None)"
    by (simp add: fakeReconciler_def)
  show ?thesis
    using C9_active_proxies_block_pruning[of "fakeReconciler False" "''canary''" "[]" world0]
    by (simp add: q prod_eq_iff)
qed

section \<open>Properties of the hook dispatcher\<close>

lemma runHookList_invoked:
  "hooksInvoked (snd (runHookList kubeClient hc hs s)) = hooksInvoked (snd s) @ map hookName hs"
  by (induction hs arbitrary: s) (simp_all add: Let_def)

lemma checkHookListEntry_matches:
  "fst (checkHookListEntry lib m hc) = (True, None) \<longleftrightarrow> mappingMatches lib hc m"
  by (auto simp: checkHookListEntry_def checkConstraint_def mappingMatches_def satisfies_def Let_def
      split: sum.splits option.splits)

lemma checkHookListEntry_cases:
  "fst (checkHookListEntry lib m hc) = (True, None) \<or>
   fst (checkHookListEntry lib m hc) = (False, None) \<or>
   (\<exists>err. fst (checkHookListEntry lib m hc) = (False, Some err))"
  by (auto simp: checkHookListEntry_def checkConstraint_def Let_def
      split: sum.splits option.splits)

lemma runMapping_invoked:
  "hooksInvoked (snd (runMapping lib kubeClient hc dryRun m s)) =
     hooksInvoked (snd s) @
       (if \<not> dryRun \<and> mappingMatches lib hc m then map hookName (hooks m) else [])"
  using checkHookListEntry_cases[of lib m hc] checkHookListEntry_matches[of lib m hc]
  by (auto simp: runMapping_def Let_def runHookList_invoked)

lemma runMappings_invoked:
  "hooksInvoked (snd (runMappings lib kubeClient hc dryRun hml s)) =
     hooksInvoked (snd s) @
       (if dryRun then []
        else concat (map (\<lambda>m. map hookName (hooks m)) (filter (mappingMatches lib hc) hml)))"
  by (induction hml arbitrary: s) (simp_all add: runMapping_invoked)

lemma runMapping_skip:
  assumes "\<not> mappingMatches lib hc m"
    and "\<not> isl (NewVersion lib (SourceVer hc))" and "\<not> isl (NewVersion lib (TargetVer hc))"
    and "\<not> isl (NewConstraint lib (sourceVersionConstraint m))"
    and "\<not> isl (NewConstraint lib (targetVersionConstraint m))"
  shows "fst (runMapping lib kubeClient hc dryRun m s) = fst s
       \<and> hookState (snd (runMapping lib kubeClient hc dryRun m s)) = hookState (snd s)
       \<and> hooksInvoked (snd (runMapping lib kubeClient hc dryRun m s)) = hooksInvoked (snd s)"
  using assms
  by (auto simp: runMapping_def checkHookListEntry_def checkConstraint_def mappingMatches_def
      satisfies_def Let_def split: sum.splits option.splits)

lemmas gv_defs =
  goVersion_def gvNewVersion_def gvNewConstraint_def gvCheck_def parseSingle_def
  parseSegment_def padSegments_def digitOf_def trimSpace_def Let_def

lemma gv_versions:
  "gvNewVersion ''1.4.0'' = Inr [1, 4, 0]" "gvNewVersion ''1.5.0'' = Inr [1, 5, 0]"
  "gvNewVersion ''1.2.0'' = Inr [1, 2, 0]"
  by (simp_all add: gv_defs)

lemma gv_constraint: "gvNewConstraint ''>=1.3'' = Inr [(CGe, [1, 3, 0])]"
  by (simp add: gv_defs)

lemma gv_satisfies:
  "satisfies goVersion ''1.4.0'' ''>=1.3''" "satisfies goVersion ''1.5.0'' ''>=1.3''"
  "\<not> satisfies goVersion ''1.2.0'' ''>=1.3''"
  by (simp_all add: satisfies_def goVersion_def gv_versions gv_constraint gvCheck_def)

lemma runUpgradeHooks_invoked:
  assumes "\<not> isl (NewVersion lib (SourceVer hc))" and "\<not> isl (NewVersion lib (TargetVer hc))"
  shows "hooksInvoked (snd (runUpgradeHooks lib hml kubeClient hc dryRun w)) =
     hooksInvoked w @
       (if dryRun then []
        else concat (map (\<lambda>m. map hookName (hooks m)) (filter (mappingMatches lib hc) hml)))"
  using assms
  by (auto simp: runUpgradeHooks_def runMappings_invoked split: sum.splits)

lemma goVersion_parses:
  "SourceVer hc = ''1.4.0'' \<Longrightarrow> \<not> isl (NewVersion goVersion (SourceVer hc))"
  "TargetVer hc = ''1.5.0'' \<Longrightarrow> \<not> isl (NewVersion goVersion (TargetVer hc))"
  by (simp_all add: goVersion_def gv_versions)

lemma mapping13_matches:
  "SourceVer hc = ''1.4.0'' \<Longrightarrow> TargetVer hc = ''1.5.0'' \<Longrightarrow>
   mappingMatches goVersion hc (mapping13 hs)"
  by (simp add: mappingMatches_def mapping13_def gv_satisfies)

lemma mapping13_skipped:
  "SourceVer hc = ''1.2.0'' \<Longrightarrow> \<not> isl (NewVersion goVersion (TargetVer hc)) \<Longrightarrow>
   runUpgradeHooks goVersion [mapping13 hs] kubeClient hc dryRun w =
     ([], w\<lparr>hookLog := hookLog w @ [LogSourceNotSatisfied ''1.2.0'' ''>=1.3'']\<rparr>)"
  by (auto simp: runUpgradeHooks_def runMapping_def checkHookListEntry_def checkConstraint_def
      mapping13_def goVersion_def gv_versions gv_constraint gvCheck_def Let_def
      split: sum.splits)

lemma versions_sel:
  "SourceVer (versions src tgt) = src" "TargetVer (versions src tgt) = tgt"
  by (simp_all add: versions_def)

text \<open>
  C8, as amended. Let the source and the target version parse. When dry run is not set,
  the hooks that are called are, in order, the hooks of exactly those mappings whose
  source constraint the source version satisfies and whose target constraint the target
  version satisfies; with dry run set no hook is called. A mapping that does not match,
  with constraints that parse, adds no error, calls no hook and leaves the state alone.
  In particular, with the go-version fragment, the mapping with \<open>>=1.3\<close> and \<open>>=1.3\<close> has
  all its hooks called for source 1.4.0 and target 1.5.0 (dry run not set), and for
  source 1.2.0 (and a target that parses) it is skipped: no error is returned and the
  world is unchanged but for the log line.
\<close>

theorem C8_hooks_run_iff_constraints_satisfied:
  "\<not> isl (NewVersion lib (SourceVer hc)) \<Longrightarrow> \<not> isl (NewVersion lib (TargetVer hc)) \<Longrightarrow>
   newHooksInvoked w (snd (runUpgradeHooks lib hml kubeClient hc dryRun w)) =
     (if dryRun then []
      else concat (map (\<lambda>m. map hookName (hooks m)) (filter (mappingMatches lib hc) hml)))
   \<and> (\<not> mappingMatches lib hc m \<and> \<not> isl (NewConstraint lib (sourceVersionConstraint m))
        \<and> \<not> isl (NewConstraint lib (targetVersionConstraint m)) \<longrightarrow>
      fst (runMapping lib kubeClient hc dryRun m s) = fst s
      \<and> hookState (snd (runMapping lib kubeClient hc dryRun m s)) = hookState (snd s)
      \<and> hooksInvoked (snd (runMapping lib kubeClient hc dryRun m s)) = hooksInvoked (snd s))
   \<and> (SourceVer hc1 = ''1.4.0'' \<and> TargetVer hc1 = ''1.5.0'' \<longrightarrow>
        mappingMatches goVersion hc1 (mapping13 hs) \<and>
        newHooksInvoked w0 (snd (runUpgradeHooks goVersion [mapping13 hs] k0 hc1 False w0)) =
          map hookName hs)
   \<and> (SourceVer hc2 = ''1.2.0'' \<and> \<not> isl (NewVersion goVersion (TargetVer hc2)) \<longrightarrow>
        \<not> mappingMatches goVersion hc2 (mapping13 hs) \<and>
        runUpgradeHooks goVersion [mapping13 hs] k0 hc2 dryRun w0 =
          ([], w0\<lparr>hookLog := hookLog w0 @ [LogSourceNotSatisfied ''1.2.0'' ''>=1.3'']\<rparr>))"
proof -
  assume p: "\<not> isl (NewVersion lib (SourceVer hc))" "\<not> isl (NewVersion lib (TargetVer hc))"
  have a: "newHooksInvoked w (snd (runUpgradeHooks lib hml kubeClient hc dryRun w)) =
     (if dryRun then []
      else concat (map (\<lambda>m. map hookName (hooks m)) (filter (mappingMatches lib hc) hml)))"
    by (simp add: newHooksInvoked_def runUpgradeHooks_invoked[OF p])
  have b: "newHooksInvoked w0 (snd (runUpgradeHooks goVersion [mapping13 hs] k0 hc1 False w0)) =
          map hookName hs"
    if v: "SourceVer hc1 = ''1.4.0''" "TargetVer hc1 = ''1.5.0''"
    using mapping13_matches[OF v, of hs]
    by (simp add: newHooksInvoked_def
          runUpgradeHooks_invoked[OF goVersion_parses(1)[OF v(1)] goVersion_parses(2)[OF v(2)]])
       (simp add: mapping13_def)
  have c: "\<not> mappingMatches goVersion hc2 (mapping13 hs)" if "SourceVer hc2 = ''1.2.0''"
    using that by (simp add: mappingMatches_def mapping13_def gv_satisfies)
  show ?thesis
    using a b c runMapping_skip[OF _ p, of m kubeClient dryRun s]
      mapping13_matches[of hc1 hs] mapping13_skipped[of hc2 hs k0 dryRun w0]
    by blast
qed

theorem C8_hooks_run_iff_constraints_satisfied_witness:
  "\<not> isl (NewVersion goVersion (SourceVer (versions ''1.4.0'' ''1.5.0''))) \<and>
   \<not> isl (NewVersion goVersion (TargetVer (versions ''1.4.0'' ''1.5.0''))) \<and>
   mappingMatches goVersion (versions ''1.4.0'' ''1.5.0'') (mapping13 [quietHook, failingHook]) \<and>
   newHooksInvoked hookWorld0
     (snd (runUpgradeHooks goVersion [mapping13 [quietHook, failingHook]] ()
             (versions ''1.4.0'' ''1.5.0'') False hookWorld0)) =
     [''checkInitCrdJobs'', ''checkMixerTelemetry'']"
proof -
  have p: "\<not> isl (NewVersion goVersion (SourceVer (versions ''1.4.0'' ''1.5.0'')))"
          "\<not> isl (NewVersion goVersion (TargetVer (versions ''1.4.0'' ''1.5.0'')))"
    by (rule goVersion_parses, rule versions_sel)+
  have m: "mappingMatches goVersion (versions ''1.4.0'' ''1.5.0'')
             (mapping13 [quietHook, failingHook])"
    by (rule mapping13_matches) (rule versions_sel)+
  have "newHooksInvoked hookWorld0
     (snd (runUpgradeHooks goVersion [mapping13 [quietHook, failingHook]] ()
             (versions ''1.4.0'' ''1.5.0'') False hookWorld0)) =
     (if False then []
      else concat (map (\<lambda>m. map hookName (hooks m))
        (filter (mappingMatches goVersion (versions ''1.4.0'' ''1.5.0''))
           [mapping13 [quietHook, failingHook]])))"
    by (rule C8_hooks_run_iff_constraints_satisfied[OF p, THEN conjunct1])
  then have "newHooksInvoked hookWorld0
     (snd (runUpgradeHooks goVersion [mapping13 [quietHook, failingHook]] ()
             (versions ''1.4.0'' ''1.5.0'') False hookWorld0)) =
     [''checkInitCrdJobs'', ''checkMixerTelemetry'']"
    by (simp add: m, simp add: mapping13_def quietHook_def failingHook_def)
  then show ?thesis
    using p m by simp
qed

theorem C8_dry_run_skips_matching_hooks_counterexample:
  "mappingMatches goVersion (versions ''1.4.0'' ''1.5.0'') (mapping13 [quietHook, failingHook]) \<and>
   hooksInvoked
     (snd (runUpgradeHooks goVersion [mapping13 [quietHook, failingHook]] ()
             (versions ''1.4.0'' ''1.5.0'') True hookWorld0)) = []"
proof -
  have p: "\<not> isl (NewVersion goVersion (SourceVer (versions ''1.4.0'' ''1.5.0'')))"
          "\<not> isl (NewVersion goVersion (TargetVer (versions ''1.4.0'' ''1.5.0'')))"
    by (rule goVersion_parses, rule versions_sel)+
  have m: "mappingMatches goVersion (versions ''1.4.0'' ''1.5.0'')
             (mapping13 [quietHook, failingHook])"
    by (rule mapping13_matches) (rule versions_sel)+
  show ?thesis
    by (simp add: runUpgradeHooks_invoked[OF p] hookWorld0_def m)
qed

section \<open>Properties of the drift-detection hook\<close>










subsection \<open>The other copy\<close>



















end
